theory Spec2Isabelle
  imports Complex_Main "HOL-Library.Sublist"
begin

text \<open>
  The anchoring core of the co-reader: the context of a selection, the creation of
  anchors, their resolution to rectangles, and the stores of documents, highlights,
  notes, vocabulary and AI outputs in \<open>localStorage\<close>. Each function of the source is a
  function here under its own name; what the browser computes (XPath evaluation,
  layout, identifiers, the clock) is an argument.
\<close>

section \<open>JavaScript string primitives used by the anchoring code\<close>

text \<open>
  Strings are lists of code units. \<open>slice\<close> follows \<open>String.prototype.slice\<close>: a negative
  index counts from the end, both indexes are clamped to the string, and an end before
  the start gives the empty string.
\<close>

definition slice :: "string \<Rightarrow> int \<Rightarrow> int \<Rightarrow> string" where
  "slice s start end' =
     (let len = int (length s);
          from' = (if start < 0 then max (len + start) 0 else min start len);
          to' = (if end' < 0 then max (len + end') 0 else min end' len)
      in take (nat (to' - from')) (drop (nat from') s))"

text \<open>\<open>String.prototype.includes\<close>: the search string occurs at some position.\<close>

fun str_includes :: "string \<Rightarrow> string \<Rightarrow> bool" where
  "str_includes [] searchString = (searchString = [])"
| "str_includes (c # cs) searchString =
     (prefix searchString (c # cs) \<or> str_includes cs searchString)"

text \<open>\<open>String.prototype.indexOf\<close>: the first position of the search string, or \<open>-1\<close>.\<close>

fun indexOfFrom :: "string \<Rightarrow> string \<Rightarrow> int \<Rightarrow> int" where
  "indexOfFrom [] searchString i = (if searchString = [] then i else - 1)"
| "indexOfFrom (c # cs) searchString i =
     (if prefix searchString (c # cs) then i else indexOfFrom cs searchString (i + 1))"

definition indexOf :: "string \<Rightarrow> string \<Rightarrow> int" where
  "indexOf s searchString = indexOfFrom s searchString 0"

text \<open>\<open>toLowerCase\<close> on the ASCII letters of a tag name.\<close>

definition lowerChar :: "char \<Rightarrow> char" where
  "lowerChar c =
     (let n = (of_char c :: nat) in if 65 \<le> n \<and> n \<le> 90 then char_of (n + 32) else c)"

definition toLowerCase :: "string \<Rightarrow> string" where
  "toLowerCase s = map lowerChar s"

text \<open>The decimal numeral a template literal prints for an index.\<close>

definition digitChar :: "nat \<Rightarrow> char" where
  "digitChar d = char_of (48 + d)"

function showNat :: "nat \<Rightarrow> string" where
  "showNat n = (if n < 10 then [digitChar n] else showNat (n div 10) @ [digitChar (n mod 10)])"
  by pat_completeness auto
termination
  by (relation "measure (\<lambda>n. n)") auto

declare showNat.simps [simp del]

text \<open>\<open>Array.prototype.join\<close> with a separator.\<close>

fun join :: "string \<Rightarrow> string list \<Rightarrow> string" where
  "join sep [] = []"
| "join sep [p] = p"
| "join sep (p # q # ps) = p @ sep @ join sep (q # ps)"


section \<open>The DOM as the anchoring code reads it\<close>

text \<open>
  A node is a text node, an HTML element with its tag name and child nodes, an element
  of another namespace (SVG or MathML: an \<open>Element\<close> of the DOM that is not an
  \<open>HTMLElement\<close>), or the document node. A node is referred to by the path of child
  indexes that leads to it from the root, which gives \<open>parentNode\<close> and
  \<open>previousSibling\<close> their meaning.
\<close>

datatype node =
    Text string
  | Element string "node list"
  | ForeignElement string "node list"
  | DocumentNode "node list"

type_synonym nodeRef = "nat list"

datatype nodeType = ELEMENT_NODE | TEXT_NODE | DOCUMENT_NODE

fun nodeTypeOf :: "node \<Rightarrow> nodeType" where
  "nodeTypeOf (Text s) = TEXT_NODE"
| "nodeTypeOf (Element t cs) = ELEMENT_NODE"
| "nodeTypeOf (ForeignElement t cs) = ELEMENT_NODE"
| "nodeTypeOf (DocumentNode cs) = DOCUMENT_NODE"

fun childNodes :: "node \<Rightarrow> node list" where
  "childNodes (Text s) = []"
| "childNodes (Element t cs) = cs"
| "childNodes (ForeignElement t cs) = cs"
| "childNodes (DocumentNode cs) = cs"

fun nodeName :: "node \<Rightarrow> string" where
  "nodeName (Text s) = ''#text''"
| "nodeName (Element t cs) = t"
| "nodeName (ForeignElement t cs) = t"
| "nodeName (DocumentNode cs) = ''#document''"

fun nodeAt :: "node \<Rightarrow> nodeRef \<Rightarrow> node option" where
  "nodeAt n [] = Some n"
| "nodeAt n (i # p) =
     (if i < length (childNodes n) then nodeAt (childNodes n ! i) p else None)"

text \<open>All character data below a node, in document order.\<close>

fun allText :: "node \<Rightarrow> string" where
  "allText (Text s) = s"
| "allText (Element t cs) = concat (map allText cs)"
| "allText (ForeignElement t cs) = concat (map allText cs)"
| "allText (DocumentNode cs) = concat (map allText cs)"

text \<open>
  The \<open>textContent\<close> property: the data of a text node, the concatenated text of an
  element's descendants, and \<open>null\<close> for the document node.
\<close>

fun textContent :: "node \<Rightarrow> string option" where
  "textContent (Text s) = Some s"
| "textContent (Element t cs) = Some (allText (Element t cs))"
| "textContent (ForeignElement t cs) = Some (allText (ForeignElement t cs))"
| "textContent (DocumentNode cs) = None"

text \<open>\<open>x || ''\<close> on a string that may be \<open>null\<close>.\<close>

definition orEmpty :: "string option \<Rightarrow> string" where
  "orEmpty v = (case v of None \<Rightarrow> [] | Some s \<Rightarrow> s)"

text \<open>
  The number of characters of text that lie before a position below a node: the path
  leads to a child, and the text of the children before it is counted at every level.
\<close>

fun textBefore :: "node \<Rightarrow> nodeRef \<Rightarrow> nat" where
  "textBefore n [] = 0"
| "textBefore n (i # p) =
     length (concat (map allText (take i (childNodes n))))
       + (if i < length (childNodes n) then textBefore (childNodes n ! i) p else 0)"

text \<open>
  A Range is its two boundary points. In a text node the offset counts characters, in
  an element it counts child nodes.
\<close>

record Range =
  r_startContainer :: nodeRef
  r_startOffset :: nat
  r_endContainer :: nodeRef
  r_endOffset :: nat

text \<open>The position of a boundary point in the text of the whole tree.\<close>

definition boundaryTextPos :: "node \<Rightarrow> nodeRef \<Rightarrow> nat \<Rightarrow> nat" where
  "boundaryTextPos tree container offset =
     (case nodeAt tree container of
        Some (Text s) \<Rightarrow> textBefore tree container + offset
      | _ \<Rightarrow> textBefore tree (container @ [offset]))"

text \<open>
  \<open>range.toString()\<close>: the text between the two boundary points, and
  \<open>range.commonAncestorContainer\<close>: the deepest node that contains both.
\<close>

definition rangeToString :: "node \<Rightarrow> Range \<Rightarrow> string" where
  "rangeToString tree rng =
     (let s = boundaryTextPos tree (r_startContainer rng) (r_startOffset rng);
          e = boundaryTextPos tree (r_endContainer rng) (r_endOffset rng)
      in take (e - s) (drop s (allText tree)))"

definition commonAncestorContainer :: "Range \<Rightarrow> nodeRef" where
  "commonAncestorContainer rng =
     longest_common_prefix (r_startContainer rng) (r_endContainer rng)"


section \<open>Selection utilities\<close>

text \<open>
  \<open>extractContext\<close>: the text of the common ancestor when it is a text node or an
  \<open>HTMLElement\<close> (and the empty text otherwise, also for an element of another
  namespace), the first occurrence of the selected text in it, and the window of
  \<open>contextLength\<close> characters on each side, clipped to the text.
\<close>

definition extractContext :: "node \<Rightarrow> Range \<Rightarrow> int \<Rightarrow> string" where
  "extractContext tree rng contextLength =
     (let container = commonAncestorContainer rng;
          textContent' =
            (case nodeAt tree container of
               Some (Text s) \<Rightarrow> orEmpty (textContent (Text s))
             | Some (Element t cs) \<Rightarrow> orEmpty (textContent (Element t cs))
             | _ \<Rightarrow> []);
          selectedText = rangeToString tree rng;
          index = indexOf textContent' selectedText
      in if index = - 1 then selectedText
         else
           (let start = max 0 (index - contextLength);
                end' = min (int (length textContent'))
                         (index + int (length selectedText) + contextLength)
            in slice textContent' start end'))"


section \<open>Anchors\<close>

record AnchorBase =
  startOffset :: int
  endOffset :: int
  context' :: string

record PdfAnchor = AnchorBase +
  pageNumber :: int

record HtmlAnchor = AnchorBase +
  xpath :: string

datatype Anchor = Pdf PdfAnchor | Html HtmlAnchor

record BoundingRect =
  rect_top :: real
  rect_left :: real
  rect_width :: real
  rect_height :: real


section \<open>XPath of a node\<close>

text \<open>
  \<open>getXPath\<close> starts at the parent of a text node and walks up while the current node is
  an element. At each level the index is one more than the number of preceding siblings
  that are elements of the same name. The \<open>tagName\<close> of an element is its \<open>nodeName\<close>.
\<close>

definition parentNode :: "nodeRef \<Rightarrow> nodeRef option" where
  "parentNode r = (if r = [] then None else Some (butlast r))"

definition siblingIndex :: "node \<Rightarrow> nodeRef \<Rightarrow> node \<Rightarrow> nat" where
  "siblingIndex tree r current =
     (case parentNode r of
        None \<Rightarrow> 1
      | Some p \<Rightarrow>
          (case nodeAt tree p of
             None \<Rightarrow> 1
           | Some parent \<Rightarrow>
               1 + length (filter (\<lambda>sibling. nodeTypeOf sibling = ELEMENT_NODE
                                     \<and> nodeName sibling = nodeName current)
                             (take (last r) (childNodes parent)))))"

function xpathParts :: "node \<Rightarrow> nodeRef option \<Rightarrow> string list \<Rightarrow> string list" where
  "xpathParts tree None parts = parts"
| "xpathParts tree (Some r) parts =
     (case nodeAt tree r of
        None \<Rightarrow> parts
      | Some current \<Rightarrow>
          if nodeTypeOf current = ELEMENT_NODE
          then xpathParts tree (parentNode r)
                 ((toLowerCase (nodeName current) @ ''['' @ showNat (siblingIndex tree r current)
                     @ '']'') # parts)
          else parts)"
  by pat_completeness auto
termination
  by (relation "measure (\<lambda>(tree, r, parts). case r of None \<Rightarrow> 0 | Some p \<Rightarrow> Suc (length p))")
     (auto simp: parentNode_def split: if_splits)

definition getXPath :: "node \<Rightarrow> nodeRef \<Rightarrow> string" where
  "getXPath tree node' =
     (let start = (case nodeAt tree node' of
                     Some (Text s) \<Rightarrow> parentNode node'
                   | _ \<Rightarrow> Some node')
      in ''/'' @ join ''/'' (xpathParts tree start []))"


section \<open>Anchor creation\<close>

definition createHtmlAnchor :: "node \<Rightarrow> Range \<Rightarrow> HtmlAnchor" where
  "createHtmlAnchor tree rng =
     (let container = r_startContainer rng;
          xpath' = getXPath tree container;
          ctx = extractContext tree rng 30
      in \<lparr> startOffset = int (r_startOffset rng),
           endOffset = int (r_endOffset rng),
           context' = ctx,
           xpath = xpath' \<rparr>)"

definition createPdfAnchor :: "int \<Rightarrow> int \<Rightarrow> int \<Rightarrow> string \<Rightarrow> PdfAnchor" where
  "createPdfAnchor pageNumber' startOffset' endOffset' ctx =
     \<lparr> startOffset = startOffset', endOffset = endOffset', context' = ctx,
       pageNumber = pageNumber' \<rparr>"


section \<open>Anchor resolution\<close>

text \<open>
  What the browser supplies to the resolver: the tree, the XPath engine behind
  \<open>document.evaluate\<close> (which may throw, or find no node), and the layout behind
  \<open>range.getClientRects()\<close> for a range of characters of a text node.
\<close>

datatype dom_error = IndexSizeError | XPathException

record DOMDocument =
  documentTree :: node
  evaluate :: "string \<Rightarrow> dom_error + nodeRef option"
  getClientRects :: "nodeRef \<Rightarrow> nat \<times> nat \<Rightarrow> BoundingRect list"

definition resolveXPath :: "string \<Rightarrow> DOMDocument \<Rightarrow> nodeRef option" where
  "resolveXPath xp doc = (case evaluate doc xp of Inl e \<Rightarrow> None | Inr r \<Rightarrow> r)"

text \<open>
  The text node the resolver works on: the resolved node itself when it is a text node,
  its first child when that is a text node, and none otherwise.
\<close>

definition findTextNode :: "node \<Rightarrow> nodeRef \<Rightarrow> nodeRef option" where
  "findTextNode tree node' =
     (case nodeAt tree node' of
        None \<Rightarrow> None
      | Some n \<Rightarrow>
          if nodeTypeOf n = TEXT_NODE then Some node'
          else (case childNodes n of
                  [] \<Rightarrow> None
                | c # cs \<Rightarrow> if nodeTypeOf c = TEXT_NODE then Some (node' @ [0]) else None))"

text \<open>
  \<open>range.setStart\<close> and \<open>range.setEnd\<close> on a text node of \<open>len\<close> characters. The offset
  is converted to an unsigned long; an offset beyond the node throws. On a fresh range
  \<open>setStart\<close> collapses the range to the new start, and \<open>setEnd\<close> before the start
  collapses it to the new end.
\<close>

definition toUnsignedLong :: "int \<Rightarrow> nat" where
  "toUnsignedLong x = nat (x mod 2 ^ 32)"

definition setStart :: "nat \<Rightarrow> int \<Rightarrow> dom_error + nat \<times> nat" where
  "setStart len offset =
     (let k = toUnsignedLong offset in if k > len then Inl IndexSizeError else Inr (k, k))"

definition setEnd :: "nat \<Rightarrow> nat \<times> nat \<Rightarrow> int \<Rightarrow> dom_error + nat \<times> nat" where
  "setEnd len rng offset =
     (let k = toUnsignedLong offset
      in if k > len then Inl IndexSizeError
         else Inr (if k < fst rng then (k, k) else (fst rng, k)))"

text \<open>
  \<open>resolveHtmlAnchor\<close>, in the three stages of its body. First the node of the XPath
  and its text node, with the text the check reads. \<open>None\<close> is the \<open>return null\<close> of a
  failing step.
\<close>

definition resolvedTextNode :: "HtmlAnchor \<Rightarrow> DOMDocument \<Rightarrow> (nodeRef \<times> string) option" where
  "resolvedTextNode anchor doc =
     (case resolveXPath (xpath anchor) doc of
        None \<Rightarrow> None
      | Some node' \<Rightarrow>
          (case findTextNode (documentTree doc) node' of
             None \<Rightarrow> None
           | Some textNode \<Rightarrow>
               Some (textNode,
                     orEmpty (case nodeAt (documentTree doc) textNode of
                                None \<Rightarrow> None
                              | Some n \<Rightarrow> textContent n))))"

text \<open>The \<open>try\<close> block: the range set from the stored offsets; a throw gives \<open>null\<close>.\<close>

definition rangeFromOffsets ::
  "nodeRef \<Rightarrow> string \<Rightarrow> HtmlAnchor \<Rightarrow> (nodeRef \<times> nat \<times> nat) option" where
  "rangeFromOffsets textNode nodeText anchor =
     (case setStart (length nodeText) (startOffset anchor) of
        Inl e \<Rightarrow> None
      | Inr r1 \<Rightarrow>
          (case setEnd (length nodeText) r1 (endOffset anchor) of
             Inl e \<Rightarrow> None
           | Inr r2 \<Rightarrow> Some (textNode, r2)))"

text \<open>
  The check that the text contains \<open>context.slice(10, -10)\<close> stands between the two, and
  gives the range the rectangles are taken from.
\<close>

definition resolveHtmlRange :: "HtmlAnchor \<Rightarrow> DOMDocument \<Rightarrow> (nodeRef \<times> nat \<times> nat) option" where
  "resolveHtmlRange anchor doc =
     (case resolvedTextNode anchor doc of
        None \<Rightarrow> None
      | Some (textNode, nodeText) \<Rightarrow>
          if \<not> str_includes nodeText (slice (context' anchor) 10 (- 10)) then None
          else rangeFromOffsets textNode nodeText anchor)"

text \<open>The rest of \<open>resolveHtmlAnchor\<close>: the client rectangles of the range, copied.\<close>

definition toBoundingRect :: "BoundingRect \<Rightarrow> BoundingRect" where
  "toBoundingRect rect =
     \<lparr> rect_top = rect_top rect, rect_left = rect_left rect,
       rect_width = rect_width rect, rect_height = rect_height rect \<rparr>"

definition resolveHtmlAnchor :: "HtmlAnchor \<Rightarrow> DOMDocument \<Rightarrow> BoundingRect list option" where
  "resolveHtmlAnchor anchor doc =
     (case resolveHtmlRange anchor doc of
        None \<Rightarrow> None
      | Some (textNode, r) \<Rightarrow>
          (let rects = map toBoundingRect (getClientRects doc textNode r)
           in if length rects > 0 then Some rects else None))"

text \<open>
  The text layer of a PDF page as \<open>querySelectorAll('span')\<close> returns it: the spans in
  document order, each with its text and its bounding rectangle.
\<close>

record TextSpan =
  span_textContent :: string
  span_rect :: BoundingRect

text \<open>The loop of \<open>resolvePdfAnchor\<close> over the spans, with its running offset.\<close>

fun collectSpanRects ::
  "PdfAnchor \<Rightarrow> TextSpan list \<Rightarrow> int \<Rightarrow> BoundingRect list \<Rightarrow> BoundingRect list" where
  "collectSpanRects anchor [] currentOffset rects = rects"
| "collectSpanRects anchor (span' # spans) currentOffset rects =
     (let spanText = span_textContent span';
          spanStart = currentOffset;
          spanEnd = currentOffset + int (length spanText)
      in collectSpanRects anchor spans spanEnd
           (if spanEnd > startOffset anchor \<and> spanStart < endOffset anchor
            then rects @ [toBoundingRect (span_rect span')] else rects))"

definition resolvePdfAnchor ::
  "PdfAnchor \<Rightarrow> string \<Rightarrow> TextSpan list option \<Rightarrow> BoundingRect list option" where
  "resolvePdfAnchor anchor pageTextContent textLayerElement =
     (case textLayerElement of
        None \<Rightarrow> None
      | Some spans \<Rightarrow>
          (let contextCore = slice (context' anchor) 10 (- 10)
           in if \<not> str_includes pageTextContent contextCore then None
              else (let rects = collectSpanRects anchor spans 0 []
                    in if length rects > 0 then Some rects else None)))"

definition resolveAnchorToRects ::
  "Anchor \<Rightarrow> DOMDocument \<Rightarrow> (string \<times> TextSpan list option) option \<Rightarrow> BoundingRect list option" where
  "resolveAnchorToRects anchor doc pdfContext =
     (case anchor of
        Html a \<Rightarrow> resolveHtmlAnchor a doc
      | Pdf a \<Rightarrow>
          (case pdfContext of
             None \<Rightarrow> None
           | Some (pageTextContent, textLayerElement) \<Rightarrow>
               resolvePdfAnchor a pageTextContent textLayerElement))"


section \<open>The annotation store\<close>

datatype SourceType = SourcePdf | SourceUrl

datatype HighlightType = Insight | Definition | Question

datatype AIOutputType = Clarify | Assumptions | Questions | Synthesis

record Document =
  doc_id :: string
  doc_title :: string
  doc_sourceType :: SourceType
  doc_sourcePath :: string
  doc_createdAt :: int

record Highlight =
  h_id :: string
  h_documentId :: string
  h_type :: HighlightType
  h_text :: string
  h_anchor :: Anchor
  h_createdAt :: int

record Note =
  n_id :: string
  n_highlightId :: string
  n_content :: string
  n_createdAt :: int

record VocabularyEntry =
  v_id :: string
  v_word :: string
  v_contextSentence :: string
  v_documentId :: string
  v_userNote :: "string option"
  v_definition :: "string option"
  v_createdAt :: int

record AIOutput =
  ai_id :: string
  ai_highlightId :: string
  ai_type :: AIOutputType
  ai_content :: string
  ai_createdAt :: int

text \<open>
  \<open>localStorage\<close> in the browser, one field per key. \<open>None\<close> is a key that is absent or
  does not parse: every \<open>getAll\<close> reads it as the empty list. A saved list reads back as
  it was written.
\<close>

record localStorage =
  coreader_documents :: "Document list option"
  coreader_highlights :: "Highlight list option"
  coreader_notes :: "Note list option"
  coreader_vocabulary :: "VocabularyEntry list option"
  coreader_ai_outputs :: "AIOutput list option"

definition getAllDocuments :: "localStorage \<Rightarrow> Document list" where
  "getAllDocuments s = (case coreader_documents s of None \<Rightarrow> [] | Some ds \<Rightarrow> ds)"

definition saveDocuments :: "localStorage \<Rightarrow> Document list \<Rightarrow> localStorage" where
  "saveDocuments s documents = s\<lparr>coreader_documents := Some documents\<rparr>"

definition getAllHighlights :: "localStorage \<Rightarrow> Highlight list" where
  "getAllHighlights s = (case coreader_highlights s of None \<Rightarrow> [] | Some hs \<Rightarrow> hs)"

definition saveHighlights :: "localStorage \<Rightarrow> Highlight list \<Rightarrow> localStorage" where
  "saveHighlights s highlights = s\<lparr>coreader_highlights := Some highlights\<rparr>"

definition getAllNotes :: "localStorage \<Rightarrow> Note list" where
  "getAllNotes s = (case coreader_notes s of None \<Rightarrow> [] | Some ns \<Rightarrow> ns)"

definition saveNotes :: "localStorage \<Rightarrow> Note list \<Rightarrow> localStorage" where
  "saveNotes s notes = s\<lparr>coreader_notes := Some notes\<rparr>"

definition getAllVocabulary :: "localStorage \<Rightarrow> VocabularyEntry list" where
  "getAllVocabulary s = (case coreader_vocabulary s of None \<Rightarrow> [] | Some es \<Rightarrow> es)"

definition saveVocabulary :: "localStorage \<Rightarrow> VocabularyEntry list \<Rightarrow> localStorage" where
  "saveVocabulary s entries = s\<lparr>coreader_vocabulary := Some entries\<rparr>"

definition getAllAIOutputs :: "localStorage \<Rightarrow> AIOutput list" where
  "getAllAIOutputs s = (case coreader_ai_outputs s of None \<Rightarrow> [] | Some os \<Rightarrow> os)"

definition getHighlightsByDocument :: "localStorage \<Rightarrow> string \<Rightarrow> Highlight list" where
  "getHighlightsByDocument s documentId =
     filter (\<lambda>h. h_documentId h = documentId) (getAllHighlights s)"

definition getVocabularyByDocument :: "localStorage \<Rightarrow> string \<Rightarrow> VocabularyEntry list" where
  "getVocabularyByDocument s documentId =
     filter (\<lambda>v. v_documentId v = documentId) (getAllVocabulary s)"

definition getAIOutputsByHighlight :: "localStorage \<Rightarrow> string \<Rightarrow> AIOutput list" where
  "getAIOutputsByHighlight s highlightId =
     filter (\<lambda>out. ai_highlightId out = highlightId) (getAllAIOutputs s)"

definition deleteNotesByHighlight :: "localStorage \<Rightarrow> string \<Rightarrow> localStorage" where
  "deleteNotesByHighlight s highlightId =
     (let notes = getAllNotes s;
          filtered = filter (\<lambda>n. n_highlightId n \<noteq> highlightId) notes
      in saveNotes s filtered)"

definition deleteAIOutputsByHighlight :: "localStorage \<Rightarrow> string \<Rightarrow> localStorage" where
  "deleteAIOutputsByHighlight s highlightId =
     (let outputs = getAllAIOutputs s;
          filtered = filter (\<lambda>out. ai_highlightId out \<noteq> highlightId) outputs
      in s\<lparr>coreader_ai_outputs := Some filtered\<rparr>)"

text \<open>Each operation returns its result and the storage it leaves.\<close>

definition deleteHighlight :: "localStorage \<Rightarrow> string \<Rightarrow> bool \<times> localStorage" where
  "deleteHighlight s id' =
     (let highlights = getAllHighlights s;
          filtered = filter (\<lambda>h. h_id h \<noteq> id') highlights
      in if length filtered = length highlights then (False, s)
         else (True, deleteNotesByHighlight (saveHighlights s filtered) id'))"

definition deleteHighlightsByDocument :: "localStorage \<Rightarrow> string \<Rightarrow> localStorage" where
  "deleteHighlightsByDocument s documentId =
     (let highlights = getAllHighlights s;
          filtered = filter (\<lambda>h. h_documentId h \<noteq> documentId) highlights
      in saveHighlights s filtered)"

definition deleteVocabularyByDocument :: "localStorage \<Rightarrow> string \<Rightarrow> nat \<times> localStorage" where
  "deleteVocabularyByDocument s documentId =
     (let entries = getAllVocabulary s;
          filtered = filter (\<lambda>e. v_documentId e \<noteq> documentId) entries;
          deleted = length entries - length filtered
      in (deleted, if deleted > 0 then saveVocabulary s filtered else s))"

definition deleteDocument :: "localStorage \<Rightarrow> string \<Rightarrow> bool \<times> localStorage" where
  "deleteDocument s id' =
     (let documents = getAllDocuments s;
          filtered = filter (\<lambda>d. doc_id d \<noteq> id') documents
      in if length filtered = length documents then (False, s)
         else (True, deleteHighlightsByDocument (saveDocuments s filtered) id'))"

text \<open>\<open>Array.prototype.findIndex\<close>: the first index that satisfies the test, or \<open>-1\<close>.\<close>

fun findIndexFrom :: "('a \<Rightarrow> bool) \<Rightarrow> 'a list \<Rightarrow> int \<Rightarrow> int" where
  "findIndexFrom P [] i = - 1"
| "findIndexFrom P (x # xs) i = (if P x then i else findIndexFrom P xs (i + 1))"

definition findIndex :: "('a \<Rightarrow> bool) \<Rightarrow> 'a list \<Rightarrow> int" where
  "findIndex P xs = findIndexFrom P xs 0"

text \<open>
  \<open>saveNote\<close>. The identifier \<open>uuidv4()\<close> would return and the time \<open>new Date()\<close> would
  give are arguments; they are used only when a note is created.
\<close>

definition saveNote ::
  "localStorage \<Rightarrow> string \<Rightarrow> int \<Rightarrow> string \<Rightarrow> string \<Rightarrow> Note \<times> localStorage" where
  "saveNote s uuid now highlightId content =
     (let notes = getAllNotes s;
          existingIndex = findIndex (\<lambda>n. n_highlightId n = highlightId) notes
      in if existingIndex \<noteq> - 1 then
           (let notes' = notes[nat existingIndex := (notes ! nat existingIndex)\<lparr>n_content := content\<rparr>]
            in (notes' ! nat existingIndex, saveNotes s notes'))
         else
           (let note = \<lparr> n_id = uuid, n_highlightId = highlightId, n_content = content,
                         n_createdAt = now \<rparr>;
                notes' = notes @ [note]
            in (note, saveNotes s notes')))"

definition getNoteByHighlight :: "localStorage \<Rightarrow> string \<Rightarrow> Note option" where
  "getNoteByHighlight s highlightId =
     find (\<lambda>n. n_highlightId n = highlightId) (getAllNotes s)"


text \<open>
  The storage effects of the delete handler of the home page, once the user has
  confirmed: it calls \<open>deleteDocument\<close>, then \<open>deleteHighlightsByDocument\<close> and
  \<open>deleteVocabularyByDocument\<close>. The stored article or PDF is under other keys.
\<close>

definition handleDeleteDocument :: "localStorage \<Rightarrow> string \<Rightarrow> localStorage" where
  "handleDeleteDocument s id' =
     (let s1 = snd (deleteDocument s id');
          s2 = deleteHighlightsByDocument s1 id'
      in snd (deleteVocabularyByDocument s2 id'))"


section \<open>Notions of the specification\<close>

text \<open>
  The text units of a page with their running offsets: each span starts where the one
  before it ends.
\<close>

fun spanUnits :: "TextSpan list \<Rightarrow> int \<Rightarrow> (int \<times> int \<times> TextSpan) list" where
  "spanUnits [] off = []"
| "spanUnits (sp # sps) off =
     (off, off + int (length (span_textContent sp)), sp)
       # spanUnits sps (off + int (length (span_textContent sp)))"

text \<open>Half-open overlap of a unit \<open>[start, end)\<close> with the range of the anchor.\<close>

definition unitOverlaps :: "PdfAnchor \<Rightarrow> int \<times> int \<times> TextSpan \<Rightarrow> bool" where
  "unitOverlaps anchor u = (fst (snd u) > startOffset anchor \<and> fst u < endOffset anchor)"

definition unitRect :: "int \<times> int \<times> TextSpan \<Rightarrow> BoundingRect" where
  "unitRect u = toBoundingRect (span_rect (snd (snd u)))"

text \<open>
  The context core in the words of the specification: the context without its padding,
  which is 30 characters before the selection when the text has them (fewer when the
  selection starts nearer to the beginning), leaving the selected characters.
\<close>

definition spec_contextCore :: "int \<Rightarrow> int \<Rightarrow> string \<Rightarrow> string" where
  "spec_contextCore start end' ctx = take (nat (end' - start)) (drop (nat (min 30 start)) ctx)"



text \<open>The notes attached to a highlight.\<close>

definition notesOf :: "localStorage \<Rightarrow> string \<Rightarrow> Note list" where
  "notesOf s highlightId = filter (\<lambda>n. n_highlightId n = highlightId) (getAllNotes s)"


section \<open>Scenarios\<close>

text \<open>The paragraph \<open>Hello world\<close> with its first four characters selected.\<close>

definition helloTree :: node where
  "helloTree = DocumentNode [Element ''p'' [Text ''Hello world'']]"

definition helloRange :: Range where
  "helloRange = \<lparr> r_startContainer = [0, 0], r_startOffset = 0,
                  r_endContainer = [0, 0], r_endOffset = 4 \<rparr>"

text \<open>
  The article with one paragraph, \<open>brown\<close> selected at characters 10 to 15 of its text
  node, and the same article after the paragraph has changed.
\<close>

definition articleTree :: "string \<Rightarrow> node" where
  "articleTree t = DocumentNode [Element ''article'' [Element ''p'' [Text t]]]"

definition foxTree :: node where
  "foxTree = articleTree ''The quick brown fox''"

definition foxRange :: Range where
  "foxRange = \<lparr> r_startContainer = [0, 0, 0], r_startOffset = 10,
                r_endContainer = [0, 0, 0], r_endOffset = 15 \<rparr>"

definition foxAnchor :: HtmlAnchor where
  "foxAnchor = createHtmlAnchor foxTree foxRange"

text \<open>
  A layout with one line of characters of width 1: a range of a text node has one
  rectangle, from its first character to its last, and a collapsed range has none.
\<close>

definition lineLayout :: "nodeRef \<Rightarrow> nat \<times> nat \<Rightarrow> BoundingRect list" where
  "lineLayout textNode r =
     (if fst r < snd r
      then [\<lparr> rect_top = 0, rect_left = real (fst r),
               rect_width = real (snd r - fst r), rect_height = 1 \<rparr>]
      else [])"

definition articleDocument :: "string \<Rightarrow> DOMDocument" where
  "articleDocument t =
     \<lparr> documentTree = articleTree t,
       evaluate = (\<lambda>xp. if xp = ''/article[1]/p[1]'' then Inr (Some [0, 0])
                        else Inr None),
       getClientRects = lineLayout \<rparr>"



text \<open>A page of four spans of 5, 10, 5 and 5 characters, and an anchor for \<open>[3, 17)\<close>.\<close>

definition spanRect :: "real \<Rightarrow> real \<Rightarrow> BoundingRect" where
  "spanRect l w = \<lparr> rect_top = 0, rect_left = l, rect_width = w, rect_height = 1 \<rparr>"

definition pageSpans :: "TextSpan list" where
  "pageSpans =
     [\<lparr> span_textContent = ''aaaaa'', span_rect = spanRect 0 5 \<rparr>,
      \<lparr> span_textContent = ''bbbbbbbbbb'', span_rect = spanRect 5 10 \<rparr>,
      \<lparr> span_textContent = ''ccccc'', span_rect = spanRect 15 5 \<rparr>,
      \<lparr> span_textContent = ''ddddd'', span_rect = spanRect 20 5 \<rparr>]"

definition pageText :: string where
  "pageText = ''aaaaabbbbbbbbbbcccccddddd''"

definition pageAnchor :: PdfAnchor where
  "pageAnchor = createPdfAnchor 1 3 17 pageText"

text \<open>
  A longer paragraph in which \<open>brown\<close> has 30 characters of text on each side, selected
  at characters 30 to 35.
\<close>

definition storyText :: string where
  "storyText = ''It was a sunny day. The quick brown fox jumps over the lazy dog. The end.''"

definition storyRange :: Range where
  "storyRange = \<lparr> r_startContainer = [0, 0, 0], r_startOffset = 30,
                  r_endContainer = [0, 0, 0], r_endOffset = 35 \<rparr>"

definition storyAnchor :: HtmlAnchor where
  "storyAnchor = createHtmlAnchor (articleTree storyText) storyRange"

definition storyPdfAnchor :: PdfAnchor where
  "storyPdfAnchor = createPdfAnchor 1 30 35 (context' storyAnchor)"


text \<open>
  A storage with two documents. The first has a highlight with a note and an AI output,
  and a vocabulary entry; the second has a highlight with a note.
\<close>

definition emptyStorage :: localStorage where
  "emptyStorage = \<lparr> coreader_documents = None, coreader_highlights = None,
                     coreader_notes = None, coreader_vocabulary = None,
                     coreader_ai_outputs = None \<rparr>"

definition documentD1 :: Document where
  "documentD1 = \<lparr> doc_id = ''D1'', doc_title = ''Fox'', doc_sourceType = SourceUrl,
                   doc_sourcePath = ''https://example.org/fox'', doc_createdAt = 100 \<rparr>"

definition documentD2 :: Document where
  "documentD2 = \<lparr> doc_id = ''D2'', doc_title = ''Page'', doc_sourceType = SourcePdf,
                   doc_sourcePath = ''page.pdf'', doc_createdAt = 200 \<rparr>"

definition highlightH1 :: Highlight where
  "highlightH1 = \<lparr> h_id = ''H1'', h_documentId = ''D1'', h_type = Insight,
                    h_text = ''brown'', h_anchor = Html foxAnchor, h_createdAt = 300 \<rparr>"

definition highlightH2 :: Highlight where
  "highlightH2 = \<lparr> h_id = ''H2'', h_documentId = ''D2'', h_type = Question,
                    h_text = ''aabbbbbbbbbbcc'', h_anchor = Pdf pageAnchor, h_createdAt = 400 \<rparr>"

definition noteN1 :: Note where
  "noteN1 = \<lparr> n_id = ''N1'', n_highlightId = ''H1'', n_content = ''a fox'', n_createdAt = 500 \<rparr>"

definition noteN2 :: Note where
  "noteN2 = \<lparr> n_id = ''N2'', n_highlightId = ''H2'', n_content = ''a page'', n_createdAt = 600 \<rparr>"

definition outputA1 :: AIOutput where
  "outputA1 = \<lparr> ai_id = ''A1'', ai_highlightId = ''H1'', ai_type = Clarify,
                 ai_content = ''It is brown.'', ai_createdAt = 700 \<rparr>"

definition entryV1 :: VocabularyEntry where
  "entryV1 = \<lparr> v_id = ''V1'', v_word = ''quick'', v_contextSentence = ''The quick brown fox'',
                v_documentId = ''D1'', v_userNote = None, v_definition = Some ''fast'',
                v_createdAt = 800 \<rparr>"

definition sampleStorage :: localStorage where
  "sampleStorage = \<lparr> coreader_documents = Some [documentD1, documentD2],
                      coreader_highlights = Some [highlightH1, highlightH2],
                      coreader_notes = Some [noteN1, noteN2],
                      coreader_vocabulary = Some [entryV1],
                      coreader_ai_outputs = Some [outputA1] \<rparr>"


section \<open>Auxiliary facts\<close>

lemma str_includes_sublist: "str_includes s t \<longleftrightarrow> sublist t s"
  by (induction s) (auto simp: sublist_Cons_right)

lemma str_includes_empty: "str_includes t []"
  by (cases t) simp_all

lemma slice_symmetric:
  assumes "0 < a"
  shows "slice s a (- a) = take (length s - 2 * nat a) (drop (nat a) s)"
proof (cases "int (length s) \<le> a")
  case True
  then show ?thesis using assms by (simp add: slice_def Let_def)
next
  case False
  then have "nat (max (int (length s) - a) 0 - a) = length s - 2 * nat a"
    using assms by (simp add: max_def nat_diff_distrib)
  with False show ?thesis using assms
    by (auto simp add: slice_def Let_def min_def)
qed

lemma slice_30_in_slice_10: "sublist (slice ctx 30 (- 30)) (slice ctx 10 (- 10))"
proof -
  let ?n = "length ctx"
  have "drop 20 (take (?n - 20) (drop 10 ctx)) = take (?n - 40) (drop 30 ctx)"
    by (simp add: drop_take)
  then have "take (?n - 60) (drop 20 (take (?n - 20) (drop 10 ctx))) = take (?n - 60) (drop 30 ctx)"
    by (simp add: min_def)
  moreover have "sublist (take (?n - 60) (drop 20 (take (?n - 20) (drop 10 ctx))))
                   (take (?n - 20) (drop 10 ctx))"
    by (meson sublist_drop sublist_order.order_trans sublist_take)
  ultimately show ?thesis
    using slice_symmetric [of 30 ctx] slice_symmetric [of 10 ctx] by simp
qed

text \<open>
  A text that lacks the context without 30 characters at each end also lacks the
  context without 10 characters at each end, which is what the resolvers check.
\<close>

lemma trimmed_30_mismatch:
  assumes "\<not> str_includes t (slice c 30 (- 30))"
  shows "\<not> str_includes t (slice c 10 (- 10))"
  using assms slice_30_in_slice_10 [of c]
  by (meson str_includes_sublist sublist_order.order_trans)

lemma short_context_core: "length ctx \<le> 20 \<Longrightarrow> slice ctx 10 (- 10) = []"
  using slice_symmetric [of 10 ctx] by simp

lemma slice_prefix:
  assumes "0 \<le> e"
  shows "slice t 0 (min (int (length t)) e) = take (nat e) t"
  using assms by (auto simp: slice_def Let_def min_def)

lemma indexOf_prefix: "indexOf t (take k t) = 0"
  by (cases t) (simp_all add: indexOf_def take_is_prefix)


lemma collectSpanRects_filter:
  "collectSpanRects anchor spans off acc =
     acc @ map unitRect (filter (unitOverlaps anchor) (spanUnits spans off))"
  by (induction spans arbitrary: off acc) (simp_all add: Let_def unitOverlaps_def unitRect_def)

text \<open>The anchor built in the article scenario, and how the article document resolves.\<close>

lemma foxAnchor_eq:
  "foxAnchor = \<lparr> startOffset = 10, endOffset = 15, context' = ''The quick brown fox'',
                 xpath = ''/article[1]/p[1]'' \<rparr>"
  by code_simp

lemma storyAnchor_eq:
  "storyAnchor = \<lparr> startOffset = 30, endOffset = 35,
       context' = ''It was a sunny day. The quick brown fox jumps over the lazy dog. '',
       xpath = ''/article[1]/p[1]'' \<rparr>"
  by code_simp

lemma resolvedTextNode_article:
  assumes "xpath anchor = ''/article[1]/p[1]''"
  shows "resolvedTextNode anchor (articleDocument t) = Some ([0, 0, 0], t)"
  using assms
  by (simp add: resolvedTextNode_def resolveXPath_def articleDocument_def articleTree_def
      findTextNode_def orEmpty_def)

lemma getClientRects_article: "getClientRects (articleDocument t) = lineLayout"
  by (simp add: articleDocument_def)

lemma foxAnchor_range:
  assumes "resolvedTextNode foxAnchor doc = Some (textNode, nodeText)" and "15 \<le> length nodeText"
  shows "resolveHtmlRange foxAnchor doc = Some (textNode, 10, 15)"
proof -
  have "slice (context' foxAnchor) 10 (- 10) = []"
    by (simp add: foxAnchor_eq slice_def)
  moreover have "rangeFromOffsets textNode nodeText foxAnchor = Some (textNode, 10, 15)"
    using assms(2)
    by (simp add: rangeFromOffsets_def setStart_def setEnd_def toUnsignedLong_def foxAnchor_eq)
  ultimately show ?thesis
    using assms(1) by (simp add: resolveHtmlRange_def str_includes_empty)
qed


text \<open>
  A selection with at least 10 characters of context on each side lies inside the
  checked core, so a text without the selected characters does not contain the core, and
  both resolvers return \<open>null\<close> for it, whatever the stored offsets are.
\<close>

lemma padded_selection_in_core:
  assumes "ctx = lead @ sel @ trail" and "10 \<le> length lead" and "10 \<le> length trail"
  shows "sublist sel (slice ctx 10 (- 10))"
proof -
  have "slice ctx 10 (- 10) = take (length ctx - 20) (drop 10 ctx)"
    using slice_symmetric [of 10 ctx] by simp
  also have "drop 10 ctx = drop 10 lead @ sel @ trail"
    using assms(1,2) by simp
  also have "take (length ctx - 20) (drop 10 lead @ sel @ trail)
               = drop 10 lead @ sel @ take (length trail - 10) trail"
    using assms by simp
  finally show ?thesis
    by (metis sublist_appendI)
qed

lemma padded_context_mismatch:
  assumes "\<not> str_includes t sel"
    and "ctx = lead @ sel @ trail" and "10 \<le> length lead" and "10 \<le> length trail"
  shows "\<not> str_includes t (slice ctx 10 (- 10))"
  using assms(1) padded_selection_in_core [OF assms(2-4)]
  by (meson str_includes_sublist sublist_order.order_trans)

lemma padded_mismatch_suppression:
  assumes "context' pa = lead @ sel @ trail" and "context' ha = lead @ sel @ trail"
    and "10 \<le> length lead" and "10 \<le> length trail"
    and "\<not> str_includes pageTextContent sel"
    and "resolvedTextNode ha doc = Some (textNode, nodeText)"
    and "\<not> str_includes nodeText sel"
  shows "resolvePdfAnchor (pa\<lparr>startOffset := s, endOffset := e\<rparr>) pageTextContent textLayerElement = None"
    and "resolveHtmlAnchor (ha\<lparr>startOffset := s, endOffset := e\<rparr>) doc = None"
proof -
  have p: "\<not> str_includes pageTextContent (slice (context' pa) 10 (- 10))"
    using padded_context_mismatch [OF assms(5) assms(1) assms(3,4)] .
  have h: "\<not> str_includes nodeText (slice (context' ha) 10 (- 10))"
    using padded_context_mismatch [OF assms(7) assms(2) assms(3,4)] .
  show "resolvePdfAnchor (pa\<lparr>startOffset := s, endOffset := e\<rparr>) pageTextContent textLayerElement = None"
    using p by (simp add: resolvePdfAnchor_def split: option.splits)
  have "resolvedTextNode (ha\<lparr>startOffset := s, endOffset := e\<rparr>) doc = Some (textNode, nodeText)"
    using assms(6) by (simp add: resolvedTextNode_def)
  then show "resolveHtmlAnchor (ha\<lparr>startOffset := s, endOffset := e\<rparr>) doc = None"
    using h by (simp add: resolveHtmlAnchor_def resolveHtmlRange_def)
qed

text \<open>
  So for the longer paragraph, where \<open>brown\<close> has 30 characters on each side: a text
  without \<open>brown\<close> is rejected by both resolvers.
\<close>

lemma story_mismatch_suppressed:
  "\<not> str_includes ''The quick green fox'' ''brown''
   \<and> resolveHtmlAnchor storyAnchor (articleDocument ''The quick green fox'') = None
   \<and> resolvePdfAnchor storyPdfAnchor ''The quick green fox'' (Some pageSpans) = None"
proof -
  let ?lead = "''It was a sunny day. The quick ''"
  let ?trail = "'' fox jumps over the lazy dog. ''"
  have h: "context' storyAnchor = ?lead @ ''brown'' @ ?trail"
    by (simp add: storyAnchor_eq)
  have p: "context' storyPdfAnchor = ?lead @ ''brown'' @ ?trail"
    by (simp add: storyPdfAnchor_def createPdfAnchor_def storyAnchor_eq)
  have l: "10 \<le> length ?lead" and t: "10 \<le> length ?trail" by simp_all
  have a: "\<not> str_includes ''The quick green fox'' ''brown''" by simp
  have n: "resolvedTextNode storyAnchor (articleDocument ''The quick green fox'')
             = Some ([0, 0, 0], ''The quick green fox'')"
    by (simp add: resolvedTextNode_article storyAnchor_eq)
  have sh: "storyAnchor\<lparr>startOffset := 30, endOffset := 35\<rparr> = storyAnchor"
    by (simp add: storyAnchor_eq)
  have sp: "storyPdfAnchor\<lparr>startOffset := 30, endOffset := 35\<rparr> = storyPdfAnchor"
    by (simp add: storyPdfAnchor_def createPdfAnchor_def)
  note sup = padded_mismatch_suppression [OF p h l t a n a, where s = 30 and e = 35]
  from a sup(1) [where textLayerElement = "Some pageSpans"] sup(2) show ?thesis
    by (simp only: sh sp) simp
qed



text \<open>
  Two text nodes with a selection across them: under an HTML element the context is taken
  from the text of the element, under an element of another namespace the selected text
  is returned as it is.
\<close>

lemma extractContext_foreign_ancestor:
  "extractContext (DocumentNode [Element ''p'' [Text ''abc'', Text ''def'']])
      \<lparr> r_startContainer = [0, 0], r_startOffset = 1, r_endContainer = [0, 1], r_endOffset = 2 \<rparr> 1
     = ''abcdef''
   \<and> extractContext (DocumentNode [ForeignElement ''text'' [Text ''abc'', Text ''def'']])
      \<lparr> r_startContainer = [0, 0], r_startOffset = 1, r_endContainer = [0, 1], r_endOffset = 2 \<rparr> 1
     = ''bcde''"
  by code_simp

text \<open>Lists: filters, the first match, and the update at the first match.\<close>

lemma length_filter_eq_conv: "length (filter P xs) = length xs \<longleftrightarrow> (\<forall>x\<in>set xs. P x)"
proof -
  have "length (filter P xs) + length (filter (\<lambda>x. \<not> P x) xs) = length xs"
    by (rule sum_length_filter_compl)
  then have "length (filter P xs) = length xs \<longleftrightarrow> filter (\<lambda>x. \<not> P x) xs = []"
    by auto
  then show ?thesis by (simp add: filter_empty_conv)
qed

lemma findIndexFrom_cases:
  assumes "0 \<le> i"
  shows "(findIndexFrom P xs i = - 1 \<and> (\<forall>x\<in>set xs. \<not> P x))
      \<or> (\<exists>k<length xs. findIndexFrom P xs i = i + int k \<and> P (xs ! k)
            \<and> (\<forall>x\<in>set (take k xs). \<not> P x))"
  using assms
proof (induction xs arbitrary: i)
  case Nil
  then show ?case by simp
next
  case (Cons x xs)
  show ?case
  proof (cases "P x")
    case True
    then show ?thesis by auto
  next
    case False
    from Cons.prems have "0 \<le> i + 1" by simp
    from Cons.IH [OF this] consider
      "findIndexFrom P xs (i + 1) = - 1" "\<forall>x\<in>set xs. \<not> P x"
      | k where "k < length xs" "findIndexFrom P xs (i + 1) = i + 1 + int k" "P (xs ! k)"
          "\<forall>x\<in>set (take k xs). \<not> P x"
      by blast
    then show ?thesis
    proof cases
      case 1
      with False show ?thesis by simp
    next
      case 2
      with False have "Suc k < length (x # xs) \<and> findIndexFrom P (x # xs) i = i + int (Suc k)
         \<and> P ((x # xs) ! Suc k) \<and> (\<forall>y\<in>set (take (Suc k) (x # xs)). \<not> P y)"
        by simp
      then show ?thesis by blast
    qed
  qed
qed

lemma findIndex_cases:
  "(findIndex P xs = - 1 \<and> (\<forall>x\<in>set xs. \<not> P x))
      \<or> (\<exists>k<length xs. findIndex P xs = int k \<and> P (xs ! k)
            \<and> (\<forall>x\<in>set (take k xs). \<not> P x))"
  using findIndexFrom_cases [of 0 P xs] by (simp add: findIndex_def)

lemma filter_first_match:
  assumes "k < length xs" and "P (xs ! k)" and "\<forall>x\<in>set (take k xs). \<not> P x" and "P y"
  shows "filter P xs = xs ! k # filter P (drop (Suc k) xs)"
    and "filter P (xs[k := y]) = y # filter P (drop (Suc k) xs)"
proof -
  have none: "filter P (take k xs) = []"
    using assms(3) by (simp add: filter_empty_conv)
  have "filter P xs = filter P (take k xs @ xs ! k # drop (Suc k) xs)"
    using assms(1) by (simp add: id_take_nth_drop [symmetric])
  then show "filter P xs = xs ! k # filter P (drop (Suc k) xs)"
    using assms(2) none by simp
  have "filter P (xs[k := y]) = filter P (take k xs @ y # drop (Suc k) xs)"
    using assms(1) by (simp add: upd_conv_take_nth_drop)
  then show "filter P (xs[k := y]) = y # filter P (drop (Suc k) xs)"
    using assms(4) none by simp
qed

text \<open>
  What \<open>saveNote\<close> does to the notes of its highlight: it appends a new note when there
  is none, and otherwise replaces the content of the first one.
\<close>

lemma saveNote_notesOf:
  "notesOf (snd (saveNote s uuid now H c)) H =
     (case notesOf s H of
        [] \<Rightarrow> [\<lparr> n_id = uuid, n_highlightId = H, n_content = c, n_createdAt = now \<rparr>]
      | n # ns \<Rightarrow> n\<lparr>n_content := c\<rparr> # ns)
   \<and> fst (saveNote s uuid now H c) =
     (case notesOf s H of
        [] \<Rightarrow> \<lparr> n_id = uuid, n_highlightId = H, n_content = c, n_createdAt = now \<rparr>
      | n # ns \<Rightarrow> n\<lparr>n_content := c\<rparr>)"
proof -
  let ?P = "\<lambda>n. n_highlightId n = H"
  let ?notes = "getAllNotes s"
  from findIndex_cases [of ?P ?notes] consider
    "findIndex ?P ?notes = - 1" "\<forall>x\<in>set ?notes. \<not> ?P x"
    | k where "k < length ?notes" "findIndex ?P ?notes = int k" "?P (?notes ! k)"
        "\<forall>x\<in>set (take k ?notes). \<not> ?P x"
    by blast
  then show ?thesis
  proof cases
    case 1
    then have "notesOf s H = []" by (simp add: notesOf_def filter_empty_conv)
    with 1 show ?thesis
      by (simp add: saveNote_def Let_def notesOf_def getAllNotes_def saveNotes_def)
  next
    case 2
    let ?y = "(?notes ! k)\<lparr>n_content := c\<rparr>"
    have y: "?P ?y" using 2(3) by simp
    note fm = filter_first_match [of k ?notes ?P ?y, OF 2(1) 2(3) 2(4) y]
    from 2 fm show ?thesis
      by (simp add: saveNote_def Let_def notesOf_def saveNotes_def getAllNotes_def)
  qed
qed

text \<open>What \<open>deleteHighlight\<close> changes, for every storage and identifier.\<close>

lemma deleteHighlight_effect:
  "fst (deleteHighlight s i) = (\<exists>h\<in>set (getAllHighlights s). h_id h = i)"
  "getAllHighlights (snd (deleteHighlight s i)) = filter (\<lambda>h. h_id h \<noteq> i) (getAllHighlights s)"
  "fst (deleteHighlight s i) \<Longrightarrow>
     getAllNotes (snd (deleteHighlight s i)) = filter (\<lambda>n. n_highlightId n \<noteq> i) (getAllNotes s)"
  "getAllAIOutputs (snd (deleteHighlight s i)) = getAllAIOutputs s"
proof -
  have eq: "length (filter (\<lambda>h. h_id h \<noteq> i) (getAllHighlights s)) = length (getAllHighlights s)
        \<longleftrightarrow> (\<forall>h\<in>set (getAllHighlights s). h_id h \<noteq> i)"
    by (rule length_filter_eq_conv)
  show "fst (deleteHighlight s i) = (\<exists>h\<in>set (getAllHighlights s). h_id h = i)"
    using eq by (auto simp: deleteHighlight_def Let_def)
  show "getAllHighlights (snd (deleteHighlight s i)) = filter (\<lambda>h. h_id h \<noteq> i) (getAllHighlights s)"
    using eq
    by (auto simp: deleteHighlight_def Let_def deleteNotesByHighlight_def saveNotes_def
        saveHighlights_def getAllHighlights_def filter_id_conv)
  show "getAllNotes (snd (deleteHighlight s i)) = filter (\<lambda>n. n_highlightId n \<noteq> i) (getAllNotes s)"
    if "fst (deleteHighlight s i)"
    using that
    by (auto simp: deleteHighlight_def Let_def deleteNotesByHighlight_def saveNotes_def
        saveHighlights_def getAllNotes_def split: if_splits)
  show "getAllAIOutputs (snd (deleteHighlight s i)) = getAllAIOutputs s"
    by (simp add: deleteHighlight_def Let_def deleteNotesByHighlight_def saveNotes_def
        saveHighlights_def getAllAIOutputs_def)
qed

text \<open>
  The delete handler of the home page leaves no vocabulary entry of the document, by its
  own call of \<open>deleteVocabularyByDocument\<close>.
\<close>

lemma handleDeleteDocument_removes_vocabulary:
  "getVocabularyByDocument (handleDeleteDocument s i) i = []"
proof -
  have "getVocabularyByDocument (snd (deleteVocabularyByDocument t i)) i = []" for t
  proof (cases "length (getAllVocabulary t)
                  - length (filter (\<lambda>e. v_documentId e \<noteq> i) (getAllVocabulary t)) > 0")
    case True
    then show ?thesis
      by (simp add: deleteVocabularyByDocument_def Let_def getVocabularyByDocument_def
          saveVocabulary_def getAllVocabulary_def)
  next
    case False
    have "length (filter (\<lambda>e. v_documentId e \<noteq> i) (getAllVocabulary t)) \<le> length (getAllVocabulary t)"
      by simp
    with False have "length (filter (\<lambda>e. v_documentId e \<noteq> i) (getAllVocabulary t))
                       = length (getAllVocabulary t)"
      by arith
    then have "\<forall>e\<in>set (getAllVocabulary t). v_documentId e \<noteq> i"
      by (simp add: length_filter_eq_conv)
    with False show ?thesis
      by (simp add: deleteVocabularyByDocument_def Let_def getVocabularyByDocument_def
          filter_empty_conv)
  qed
  then show ?thesis by (simp add: handleDeleteDocument_def Let_def)
qed


section \<open>Context verification in the resolvers\<close>

text \<open>
  Claim C1, at the anchor of the article scenario: its context is \<open>The quick brown fox\<close>,
  of which \<open>brown\<close> is the part that is not padding. The checked core
  \<open>context.slice(10, -10)\<close> is empty. The text \<open>The quick green fox\<close> does not contain
  \<open>brown\<close>, and both resolvers still return a rectangle: the HTML resolver for characters
  10 to 15 of the paragraph, and the PDF resolver, for the anchor with the same context
  and offsets, for the span of the page.
\<close>

theorem context_mismatch_not_suppressed:
  "spec_contextCore (startOffset foxAnchor) (endOffset foxAnchor) (context' foxAnchor) = ''brown''
   \<and> slice (context' foxAnchor) 10 (- 10) = []
   \<and> \<not> str_includes ''The quick green fox'' ''brown''
   \<and> resolvedTextNode foxAnchor (articleDocument ''The quick green fox'')
       = Some ([0, 0, 0], ''The quick green fox'')
   \<and> resolveHtmlAnchor foxAnchor (articleDocument ''The quick green fox'')
       = Some [\<lparr> rect_top = 0, rect_left = 10, rect_width = 5, rect_height = 1 \<rparr>]
   \<and> resolvePdfAnchor (createPdfAnchor 1 10 15 ''The quick brown fox'') ''The quick green fox''
         (Some [\<lparr> span_textContent = ''The quick green fox'', span_rect = spanRect 0 19 \<rparr>])
       = Some [spanRect 0 19]"
proof -
  have core: "spec_contextCore (startOffset foxAnchor) (endOffset foxAnchor) (context' foxAnchor)
                = ''brown''"
    by (simp add: foxAnchor_eq spec_contextCore_def)
  have checked: "slice (context' foxAnchor) 10 (- 10) = []"
    by (simp add: foxAnchor_eq slice_def)
  have absent: "\<not> str_includes ''The quick green fox'' ''brown''"
    by simp
  have node: "resolvedTextNode foxAnchor (articleDocument ''The quick green fox'')
            = Some ([0, 0, 0], ''The quick green fox'')"
    by (simp add: resolvedTextNode_article foxAnchor_eq)
  then have "resolveHtmlRange foxAnchor (articleDocument ''The quick green fox'')
            = Some ([0, 0, 0], 10, 15)"
    by (rule foxAnchor_range) simp
  then have html: "resolveHtmlAnchor foxAnchor (articleDocument ''The quick green fox'')
       = Some [\<lparr> rect_top = 0, rect_left = 10, rect_width = 5, rect_height = 1 \<rparr>]"
    by (simp add: resolveHtmlAnchor_def getClientRects_article lineLayout_def toBoundingRect_def)
  have pdf: "resolvePdfAnchor (createPdfAnchor 1 10 15 ''The quick brown fox'') ''The quick green fox''
         (Some [\<lparr> span_textContent = ''The quick green fox'', span_rect = spanRect 0 19 \<rparr>])
       = Some [spanRect 0 19]"
    by (simp add: resolvePdfAnchor_def createPdfAnchor_def slice_def toBoundingRect_def spanRect_def)
  from core checked absent node html pdf show ?thesis by simp
qed


section \<open>Resolution after the text has changed\<close>

text \<open>
  Claim C2, as the code has it: the anchor of the article scenario, resolved against a
  document in which its XPath leads to a text node of at least 15 characters, passes the
  context check and gives the range of characters 10 to 15 of that text node, the
  stored offsets, whatever the text is. The result is the list of client rectangles of
  that range, and \<open>null\<close> when the list is empty.
\<close>

theorem stale_offsets_resolution:
  assumes "resolvedTextNode foxAnchor doc = Some (textNode, nodeText)"
    and "15 \<le> length nodeText"
  shows "resolveHtmlRange foxAnchor doc = Some (textNode, 10, 15)
     \<and> resolveHtmlAnchor foxAnchor doc =
         (let rects = map toBoundingRect (getClientRects doc textNode (10, 15))
          in if rects = [] then None else Some rects)"
  using foxAnchor_range [OF assms] by (auto simp: resolveHtmlAnchor_def Let_def)

theorem stale_offsets_resolution_witness:
  "resolvedTextNode foxAnchor (articleDocument ''The slow brown fox'')
      = Some ([0, 0, 0], ''The slow brown fox'')
   \<and> 15 \<le> length ''The slow brown fox''
   \<and> resolveHtmlRange foxAnchor (articleDocument ''The slow brown fox'') = Some ([0, 0, 0], 10, 15)
   \<and> resolveHtmlAnchor foxAnchor (articleDocument ''The slow brown fox'')
       = Some [\<lparr> rect_top = 0, rect_left = 10, rect_width = 5, rect_height = 1 \<rparr>]"
proof -
  have node: "resolvedTextNode foxAnchor (articleDocument ''The slow brown fox'')
            = Some ([0, 0, 0], ''The slow brown fox'')"
    by (simp add: resolvedTextNode_article foxAnchor_eq)
  have len: "15 \<le> length ''The slow brown fox''" by simp
  show ?thesis
    using node len stale_offsets_resolution [OF node len]
    by (simp add: getClientRects_article lineLayout_def toBoundingRect_def)
qed

text \<open>
  In the changed paragraph \<open>The slow brown fox\<close> the word \<open>brown\<close> is at characters 9 to
  14. The resolved range is 10 to 15, the characters \<open>rown\<close> and a space, and its
  rectangle differs from the rectangle of \<open>brown\<close>.
\<close>

theorem stale_offsets_counterexample:
  "resolveHtmlRange foxAnchor (articleDocument ''The slow brown fox'') = Some ([0, 0, 0], 10, 15)
   \<and> slice ''The slow brown fox'' 10 15 = ''rown ''
   \<and> indexOf ''The slow brown fox'' ''brown'' = 9
   \<and> resolveHtmlAnchor foxAnchor (articleDocument ''The slow brown fox'')
       = Some (map toBoundingRect (lineLayout [0, 0, 0] (10, 15)))
   \<and> map toBoundingRect (lineLayout [0, 0, 0] (10, 15))
       \<noteq> map toBoundingRect (lineLayout [0, 0, 0] (9, 14))"
proof -
  have node: "resolvedTextNode foxAnchor (articleDocument ''The slow brown fox'')
            = Some ([0, 0, 0], ''The slow brown fox'')"
    by (simp add: resolvedTextNode_article foxAnchor_eq)
  then have rng: "resolveHtmlRange foxAnchor (articleDocument ''The slow brown fox'')
            = Some ([0, 0, 0], 10, 15)"
    by (rule foxAnchor_range) simp
  have "resolveHtmlAnchor foxAnchor (articleDocument ''The slow brown fox'')
       = Some (map toBoundingRect (lineLayout [0, 0, 0] (10, 15)))"
    by (simp add: resolveHtmlAnchor_def rng getClientRects_article lineLayout_def)
  moreover have "slice ''The slow brown fox'' 10 15 = ''rown ''"
    by (simp add: slice_def)
  moreover have "indexOf ''The slow brown fox'' ''brown'' = 9"
    by (simp add: indexOf_def)
  moreover have "map toBoundingRect (lineLayout [0, 0, 0] (10, 15))
       \<noteq> map toBoundingRect (lineLayout [0, 0, 0] (9, 14))"
    by (simp add: lineLayout_def toBoundingRect_def)
  ultimately show ?thesis using rng by simp
qed


section \<open>Short contexts\<close>

text \<open>
  Claim C3: for an anchor whose context has at most 20 characters, the checked core
  \<open>context.slice(10, -10)\<close> is empty and every text contains it, so the check never
  rejects: the PDF resolver returns what its loop over the spans collects from the
  offsets, and the HTML resolver sets its range from the offsets, for every current text.
\<close>

theorem short_context_never_rejected:
  assumes "length (context' pa) \<le> 20" and "length (context' ha) \<le> 20"
  shows "slice (context' pa) 10 (- 10) = [] \<and> slice (context' ha) 10 (- 10) = []
     \<and> str_includes t (slice (context' pa) 10 (- 10))
     \<and> str_includes t (slice (context' ha) 10 (- 10))
     \<and> resolvePdfAnchor pa pageTextContent (Some spans) =
         (let rects = collectSpanRects pa spans 0 []
          in if length rects > 0 then Some rects else None)
     \<and> resolveHtmlRange ha doc =
         (case resolvedTextNode ha doc of
            None \<Rightarrow> None
          | Some (textNode, nodeText) \<Rightarrow> rangeFromOffsets textNode nodeText ha)"
  using short_context_core [OF assms(1)] short_context_core [OF assms(2)]
  by (simp add: str_includes_empty resolvePdfAnchor_def resolveHtmlRange_def Let_def
      split: option.splits)

theorem short_context_never_rejected_witness:
  "length (context' (createPdfAnchor 1 3 17 ''quick brown fox'')) \<le> 20
   \<and> length (context' foxAnchor) \<le> 20
   \<and> \<not> str_includes ''zzzzzzzzzzzzzzzzzzzz'' ''brown''
   \<and> resolvePdfAnchor (createPdfAnchor 1 3 17 ''quick brown fox'') ''zzzzzzzzzzzzzzzzzzzz'' (Some pageSpans)
       = Some [spanRect 0 5, spanRect 5 10, spanRect 15 5]
   \<and> resolveHtmlRange foxAnchor (articleDocument ''zzzzzzzzzzzzzzzzzzzz'') = Some ([0, 0, 0], 10, 15)"
proof -
  have p: "length (context' (createPdfAnchor 1 3 17 ''quick brown fox'')) \<le> 20"
    by (simp add: createPdfAnchor_def)
  have h: "length (context' foxAnchor) \<le> 20"
    by (simp add: foxAnchor_eq)
  have n: "resolvedTextNode foxAnchor (articleDocument ''zzzzzzzzzzzzzzzzzzzz'')
            = Some ([0, 0, 0], ''zzzzzzzzzzzzzzzzzzzz'')"
    by (simp add: resolvedTextNode_article foxAnchor_eq)
  have r: "rangeFromOffsets [0, 0, 0] ''zzzzzzzzzzzzzzzzzzzz'' foxAnchor = Some ([0, 0, 0], 10, 15)"
    by (simp add: rangeFromOffsets_def setStart_def setEnd_def toUnsignedLong_def foxAnchor_eq)
  have c: "collectSpanRects (createPdfAnchor 1 3 17 ''quick brown fox'') pageSpans 0 []
             = [spanRect 0 5, spanRect 5 10, spanRect 15 5]"
    by (simp add: createPdfAnchor_def pageSpans_def toBoundingRect_def spanRect_def)
  show ?thesis
    using p h
      short_context_never_rejected [OF p h, of "''zzzzzzzzzzzzzzzzzzzz''" "''zzzzzzzzzzzzzzzzzzzz''"
        pageSpans "articleDocument ''zzzzzzzzzzzzzzzzzzzz''"]
    by (simp add: n r c)
qed


section \<open>Offsets of an HTML anchor\<close>





section \<open>Overlap of text units with a PDF anchor\<close>

text \<open>
  Claim C9: for a PDF anchor that passes the context check, the resolver returns the
  rectangles of exactly the units whose end is after the start offset and whose start is
  before the end offset, in order (and \<open>null\<close> when there is none). For four units of 5,
  10, 5 and 5 characters, which are \<open>[0,5)\<close>, \<open>[5,15)\<close>, \<open>[15,20)\<close> and \<open>[20,25)\<close>, and
  the range \<open>[3,17)\<close>, these are the first three.
\<close>

theorem pdf_overlap_units:
  assumes "str_includes pageTextContent (slice (context' anchor) 10 (- 10))"
  shows "resolvePdfAnchor anchor pageTextContent (Some spans) =
           (let rects = map unitRect (filter (unitOverlaps anchor) (spanUnits spans 0))
            in if rects = [] then None else Some rects)
     \<and> (map (\<lambda>sp. length (span_textContent sp)) spans = [5, 10, 5, 5]
          \<and> startOffset anchor = 3 \<and> endOffset anchor = 17
        \<longrightarrow> map fst (spanUnits spans 0) = [0, 5, 15, 20]
            \<and> map (fst \<circ> snd) (spanUnits spans 0) = [5, 15, 20, 25]
            \<and> resolvePdfAnchor anchor pageTextContent (Some spans)
                = Some (map (\<lambda>sp. toBoundingRect (span_rect sp)) (take 3 spans)))"
proof -
  have general: "resolvePdfAnchor anchor pageTextContent (Some spans) =
           (let rects = map unitRect (filter (unitOverlaps anchor) (spanUnits spans 0))
            in if rects = [] then None else Some rects)"
    using assms by (simp add: resolvePdfAnchor_def collectSpanRects_filter Let_def)
  have particular: "map fst (spanUnits spans 0) = [0, 5, 15, 20]
            \<and> map (fst \<circ> snd) (spanUnits spans 0) = [5, 15, 20, 25]
            \<and> resolvePdfAnchor anchor pageTextContent (Some spans)
                = Some (map (\<lambda>sp. toBoundingRect (span_rect sp)) (take 3 spans))"
    if lens: "map (\<lambda>sp. length (span_textContent sp)) spans = [5, 10, 5, 5]"
      and "startOffset anchor = 3" and "endOffset anchor = 17"
  proof -
    from lens obtain a b c d where spans: "spans = [a, b, c, d]"
      and "length (span_textContent a) = 5" "length (span_textContent b) = 10"
      "length (span_textContent c) = 5" "length (span_textContent d) = 5"
      by (auto simp: map_eq_Cons_conv)
    with that(2,3) show ?thesis
      unfolding general by (simp add: unitOverlaps_def unitRect_def)
  qed
  show ?thesis
  proof (rule conjI)
    show "resolvePdfAnchor anchor pageTextContent (Some spans) =
           (let rects = map unitRect (filter (unitOverlaps anchor) (spanUnits spans 0))
            in if rects = [] then None else Some rects)"
      by (rule general)
  qed (use particular in simp)
qed

theorem pdf_overlap_units_witness:
  "str_includes pageText (slice (context' pageAnchor) 10 (- 10))
   \<and> map (\<lambda>sp. length (span_textContent sp)) pageSpans = [5, 10, 5, 5]
   \<and> startOffset pageAnchor = 3 \<and> endOffset pageAnchor = 17
   \<and> resolvePdfAnchor pageAnchor pageText (Some pageSpans)
       = Some [spanRect 0 5, spanRect 5 10, spanRect 15 5]"
proof -
  have g: "str_includes pageText (slice (context' pageAnchor) 10 (- 10))"
    by (simp add: pageText_def pageAnchor_def createPdfAnchor_def slice_def)
  have l: "map (\<lambda>sp. length (span_textContent sp)) pageSpans = [5, 10, 5, 5]"
    by (simp add: pageSpans_def)
  have o: "startOffset pageAnchor = 3 \<and> endOffset pageAnchor = 17"
    by (simp add: pageAnchor_def createPdfAnchor_def)
  have t: "map (\<lambda>sp. toBoundingRect (span_rect sp)) (take 3 pageSpans)
             = [spanRect 0 5, spanRect 5 10, spanRect 15 5]"
    by (simp add: pageSpans_def toBoundingRect_def spanRect_def)
  show ?thesis
    using g l o pdf_overlap_units [OF g, of pageSpans, THEN conjunct2] by (simp add: t)
qed


section \<open>Context of a selection at the start of its container\<close>

text \<open>
  Claim C10, as the code has it: for a selection of the first \<open>k\<close> characters of a text,
  the context is the first \<open>k + radius\<close> characters of the text, all of it when the text
  is shorter. For the first four characters of \<open>Hello world\<close> and radius 30 this is
  \<open>Hello world\<close>.
\<close>

theorem extractContext_at_start:
  assumes "k \<le> length t" and "0 \<le> radius"
  shows "extractContext (DocumentNode [Element tag [Text t]])
           \<lparr> r_startContainer = [0, 0], r_startOffset = 0,
             r_endContainer = [0, 0], r_endOffset = k \<rparr> radius
         = take (k + nat radius) t"
proof -
  let ?tree = "DocumentNode [Element tag [Text t]]"
  let ?rng = "\<lparr> r_startContainer = [0, 0], r_startOffset = 0,
             r_endContainer = [0, 0], r_endOffset = k \<rparr>"
  have sel: "rangeToString ?tree ?rng = take k t"
    by (simp add: rangeToString_def boundaryTextPos_def)
  have anc: "nodeAt ?tree (commonAncestorContainer ?rng) = Some (Text t)"
    by (simp add: commonAncestorContainer_def)
  have len: "int (length (take k t)) = int k" using assms by simp
  have "extractContext ?tree ?rng radius
          = slice t 0 (min (int (length t)) (int k + radius))"
    using assms(2) unfolding extractContext_def Let_def anc sel
    by (simp add: indexOf_prefix orEmpty_def len del: length_take)
  also have "\<dots> = take (nat (int k + radius)) t"
    using assms by (intro slice_prefix) simp
  also have "nat (int k + radius) = k + nat radius" using assms by simp
  finally show ?thesis .
qed

theorem extractContext_at_start_witness:
  "4 \<le> length ''Hello world'' \<and> (0::int) \<le> 30
   \<and> rangeToString helloTree helloRange = ''Hell''
   \<and> extractContext helloTree helloRange 30 = ''Hello world''"
proof -
  have k: "4 \<le> length ''Hello world''" by simp
  have r: "(0::int) \<le> 30" by simp
  have s: "rangeToString helloTree helloRange = ''Hell''" by code_simp
  show ?thesis
    using k r s extractContext_at_start [OF k r, of "''p''"]
    by (simp add: helloTree_def helloRange_def)
qed

text \<open>The context is not \<open>Hello\<close>.\<close>

theorem context_at_start_counterexample:
  "extractContext helloTree helloRange 30 \<noteq> ''Hello''"
  by code_simp


section \<open>Deleting a highlight\<close>

text \<open>
  Claim C5, at a storage in which highlight \<open>H1\<close> has the note \<open>N1\<close> and the AI output
  \<open>A1\<close>: \<open>deleteHighlight\<close> returns true, removes \<open>H1\<close> and \<open>N1\<close>, and leaves the sibling
  \<open>H2\<close> with its note; the AI output \<open>A1\<close> of \<open>H1\<close> is still stored.
\<close>

theorem deleteHighlight_leaves_ai_outputs:
  "fst (deleteHighlight sampleStorage ''H1'')
   \<and> getAllHighlights (snd (deleteHighlight sampleStorage ''H1'')) = [highlightH2]
   \<and> getAllNotes (snd (deleteHighlight sampleStorage ''H1'')) = [noteN2]
   \<and> getAIOutputsByHighlight (snd (deleteHighlight sampleStorage ''H1'')) ''H1'' = [outputA1]"
  by (simp add: deleteHighlight_def deleteNotesByHighlight_def saveNotes_def saveHighlights_def
      getAllHighlights_def getAllNotes_def getAllAIOutputs_def getAIOutputsByHighlight_def
      sampleStorage_def highlightH1_def highlightH2_def noteN1_def noteN2_def outputA1_def Let_def)


section \<open>Deleting a document\<close>

text \<open>
  Claim C6, at a storage in which document \<open>D1\<close> owns the highlight \<open>H1\<close>, which has the
  note \<open>N1\<close> and the AI output \<open>A1\<close>: \<open>deleteDocument\<close> returns true and removes \<open>H1\<close>;
  the note and the AI output of \<open>H1\<close> are still stored.
\<close>

theorem deleteDocument_orphans_notes:
  "fst (deleteDocument sampleStorage ''D1'')
   \<and> getAllHighlights (snd (deleteDocument sampleStorage ''D1'')) = [highlightH2]
   \<and> getNoteByHighlight (snd (deleteDocument sampleStorage ''D1'')) ''H1'' = Some noteN1
   \<and> getAIOutputsByHighlight (snd (deleteDocument sampleStorage ''D1'')) ''H1'' = [outputA1]"
  by (simp add: deleteDocument_def deleteHighlightsByDocument_def saveDocuments_def
      saveHighlights_def getAllDocuments_def getNoteByHighlight_def
      getAllHighlights_def getAllNotes_def getAllAIOutputs_def getAIOutputsByHighlight_def
      sampleStorage_def documentD1_def documentD2_def highlightH1_def highlightH2_def
      noteN1_def noteN2_def outputA1_def Let_def)

text \<open>
  Claim C7: for a document that is in the storage, \<open>deleteDocument\<close> returns true, leaves
  the vocabulary as it was, in particular the entries of that document, and leaves no
  highlight of that document; the highlights of other documents stay.
\<close>

theorem deleteDocument_keeps_vocabulary:
  assumes "D1 \<in> set (map doc_id (getAllDocuments s))"
  shows "fst (deleteDocument s D1)
     \<and> coreader_vocabulary (snd (deleteDocument s D1)) = coreader_vocabulary s
     \<and> getVocabularyByDocument (snd (deleteDocument s D1)) D1 = getVocabularyByDocument s D1
     \<and> getHighlightsByDocument (snd (deleteDocument s D1)) D1 = []
     \<and> getAllHighlights (snd (deleteDocument s D1))
         = filter (\<lambda>h. h_documentId h \<noteq> D1) (getAllHighlights s)"
proof -
  have "\<not> (\<forall>d\<in>set (getAllDocuments s). doc_id d \<noteq> D1)"
    using assms by auto
  then have neq: "length (filter (\<lambda>d. doc_id d \<noteq> D1) (getAllDocuments s)) \<noteq> length (getAllDocuments s)"
    by (simp add: length_filter_eq_conv)
  then have del: "deleteDocument s D1 =
      (True, deleteHighlightsByDocument
               (saveDocuments s (filter (\<lambda>d. doc_id d \<noteq> D1) (getAllDocuments s))) D1)"
    by (simp add: deleteDocument_def Let_def)
  show ?thesis
    unfolding del
    by (simp add: deleteHighlightsByDocument_def saveDocuments_def saveHighlights_def Let_def
        getAllHighlights_def getHighlightsByDocument_def getVocabularyByDocument_def
        getAllVocabulary_def)
qed

theorem deleteDocument_keeps_vocabulary_witness:
  "''D1'' \<in> set (map doc_id (getAllDocuments sampleStorage))
   \<and> getHighlightsByDocument sampleStorage ''D1'' = [highlightH1]
   \<and> getVocabularyByDocument sampleStorage ''D1'' = [entryV1]
   \<and> fst (deleteDocument sampleStorage ''D1'')
   \<and> getVocabularyByDocument (snd (deleteDocument sampleStorage ''D1'')) ''D1'' = [entryV1]
   \<and> getHighlightsByDocument (snd (deleteDocument sampleStorage ''D1'')) ''D1'' = []"
proof -
  have d: "''D1'' \<in> set (map doc_id (getAllDocuments sampleStorage))"
    by (simp add: getAllDocuments_def sampleStorage_def documentD1_def)
  have h: "getHighlightsByDocument sampleStorage ''D1'' = [highlightH1]"
    by (simp add: getHighlightsByDocument_def getAllHighlights_def sampleStorage_def
        highlightH1_def highlightH2_def)
  have v: "getVocabularyByDocument sampleStorage ''D1'' = [entryV1]"
    by (simp add: getVocabularyByDocument_def getAllVocabulary_def sampleStorage_def entryV1_def)
  show ?thesis
    using d h v deleteDocument_keeps_vocabulary [OF d] by simp
qed


section \<open>Saving a note twice\<close>

text \<open>
  Claim C8, as the code has it: in a storage with at most one note for the highlight,
  \<open>saveNote\<close> with content \<open>a\<close> and then with content \<open>b\<close> leaves exactly one note for
  the highlight, with content \<open>b\<close>. Its identifier and its time are those of the note
  after the first call: of the note that was there before, or else the ones given to
  the first call. The identifier and time given to the second call are not used.
\<close>

theorem saveNote_twice:
  assumes "length (notesOf s H1) \<le> 1"
  shows "let r1 = saveNote s u1 t1 H1 a;
             r2 = saveNote (snd r1) u2 t2 H1 b
         in notesOf (snd r2) H1 = [fst r2]
            \<and> n_highlightId (fst r2) = H1
            \<and> n_content (fst r2) = b
            \<and> n_id (fst r2) = n_id (fst r1)
            \<and> n_createdAt (fst r2) = n_createdAt (fst r1)
            \<and> (notesOf s H1 = [] \<longrightarrow> n_id (fst r2) = u1 \<and> n_createdAt (fst r2) = t1)"
proof -
  let ?r1 = "saveNote s u1 t1 H1 a"
  let ?r2 = "saveNote (snd ?r1) u2 t2 H1 b"
  consider "notesOf s H1 = []" | n where "notesOf s H1 = [n]"
    using assms by (cases "notesOf s H1") (auto simp: length_Suc_conv)
  then show ?thesis
  proof cases
    case 1
    then have first: "notesOf (snd ?r1) H1 = [fst ?r1]"
      "fst ?r1 = \<lparr> n_id = u1, n_highlightId = H1, n_content = a, n_createdAt = t1 \<rparr>"
      using saveNote_notesOf [of s u1 t1 H1 a] by simp_all
    then show ?thesis
      using saveNote_notesOf [of "snd ?r1" u2 t2 H1 b] 1 by (simp add: Let_def)
  next
    case 2
    then have "n \<in> set (notesOf s H1)" by simp
    then have hn: "n_highlightId n = H1" by (simp add: notesOf_def)
    from 2 have first: "notesOf (snd ?r1) H1 = [fst ?r1]" "fst ?r1 = n\<lparr>n_content := a\<rparr>"
      using saveNote_notesOf [of s u1 t1 H1 a] by simp_all
    then show ?thesis
      using saveNote_notesOf [of "snd ?r1" u2 t2 H1 b] 2 hn by (simp add: Let_def)
  qed
qed

theorem saveNote_twice_witness:
  "length (notesOf emptyStorage ''H1'') \<le> 1
   \<and> notesOf (snd (saveNote (snd (saveNote emptyStorage ''id-1'' 1000 ''H1'' ''a''))
                     ''id-2'' 2000 ''H1'' ''b'')) ''H1''
       = [\<lparr> n_id = ''id-1'', n_highlightId = ''H1'', n_content = ''b'', n_createdAt = 1000 \<rparr>]"
proof -
  have e: "notesOf emptyStorage ''H1'' = []"
    by (simp add: notesOf_def getAllNotes_def emptyStorage_def)
  then have l: "length (notesOf emptyStorage ''H1'') \<le> 1" by simp
  have f: "fst (saveNote (snd (saveNote emptyStorage ''id-1'' 1000 ''H1'' ''a''))
                     ''id-2'' 2000 ''H1'' ''b'')
       = \<lparr> n_id = ''id-1'', n_highlightId = ''H1'', n_content = ''b'', n_createdAt = 1000 \<rparr>"
    by (simp add: saveNote_def Let_def findIndex_def getAllNotes_def saveNotes_def emptyStorage_def)
  show ?thesis
    using l saveNote_twice [OF l, of "''id-1''" 1000 "''a''" "''id-2''" 2000 "''b''"]
    by (simp add: Let_def f)
qed

text \<open>
  From the empty storage, the surviving note keeps the identifier and the time of the
  first call.
\<close>

theorem saveNote_fresh_identity_counterexample:
  "n_id (fst (saveNote (snd (saveNote emptyStorage ''id-1'' 1000 ''H1'' ''a''))
                ''id-2'' 2000 ''H1'' ''b'')) = ''id-1''
   \<and> n_createdAt (fst (saveNote (snd (saveNote emptyStorage ''id-1'' 1000 ''H1'' ''a''))
                ''id-2'' 2000 ''H1'' ''b'')) = 1000
   \<and> ''id-1'' \<noteq> ''id-2'' \<and> (1000::int) \<noteq> 2000"
  by (simp add: saveNote_def Let_def findIndex_def getAllNotes_def saveNotes_def emptyStorage_def)

end
